theory Spec2Isabelle
  imports Main
begin

section \<open>The execution engine of \<open>hiero_sdk_python/executable.py\<close>\<close>

subsection \<open>Execution states, gRPC errors and method handles\<close>

text \<open>The enumeration \<open>_ExecutionState\<close>.\<close>

datatype ExecutionState = RETRY | FINISHED | ERROR | EXPIRED

text \<open>
  A \<open>grpc.RpcError\<close>, read through \<open>e.code()\<close> and \<open>e.details()\<close> (both as the text
  that the f-string of the \<open>except\<close> branch prints).
\<close>

datatype RpcError = RpcError (rpc_code: string) (rpc_details: string)

text \<open>
  A gRPC stub method: called on a request it returns a response or raises
  \<open>grpc.RpcError\<close>.
\<close>

type_synonym ('req, 'resp) stub = "'req \<Rightarrow> RpcError + 'resp"

text \<open>The class \<open>_Method\<close>: two optional callables, \<open>None\<close> by default.\<close>

record ('req, 'resp) Method =
  query :: "('req, 'resp) stub option"
  transaction :: "('req, 'resp) stub option"

text \<open>
  What a call of \<open>_execute_method\<close> can raise: the stub's \<open>grpc.RpcError\<close>, or its own
  \<open>Exception("No method to execute")\<close>.
\<close>

datatype method_error = NoMethodToExecute | Rpc RpcError

definition call_stub :: "('req, 'resp) stub \<Rightarrow> 'req \<Rightarrow> method_error + 'resp" where
  "call_stub f proto_request =
     (case f proto_request of Inl e \<Rightarrow> Inl (Rpc e) | Inr response \<Rightarrow> Inr response)"

definition execute_method :: "('req, 'resp) Method \<Rightarrow> 'req \<Rightarrow> method_error + 'resp" where
  "execute_method method proto_request =
     (case transaction method of
        Some f \<Rightarrow> call_stub f proto_request
      | None \<Rightarrow>
          (case query method of
             Some g \<Rightarrow> call_stub g proto_request
           | None \<Rightarrow> Inl NoMethodToExecute))"

subsection \<open>The client context\<close>

text \<open>
  Modelled from the spec: the class \<open>Client\<close> is not among the sources. The engine reads
  its attempt budget \<open>max_attempts\<close>, its ordered list of candidate nodes
  (\<open>get_node_account_ids()\<close>), its current node \<open>node_account_id\<close> and its \<open>channel\<close>.
  The channel is bound to the current node and the network behind it answers differently
  from one attempt to the next, so \<open>channel\<close> is a function of the attempt at which it is
  read and of the node that is current then.
\<close>

record ('node, 'chan) Client =
  max_attempts :: int
  node_account_ids :: "'node list"
  node_account_id :: 'node
  channel :: "nat \<Rightarrow> 'node \<Rightarrow> 'chan"

text \<open>
  Modelled from the spec: \<open>Client._switch_node\<close> is not among the sources; it is the
  "switch active node" mutator, which makes the given node the current one.
\<close>

definition switch_node :: "('node, 'chan) Client \<Rightarrow> 'node \<Rightarrow> ('node, 'chan) Client" where
  "switch_node client node = client\<lparr>node_account_id := node\<rparr>"

subsection \<open>The executable\<close>

text \<open>
  The class \<open>_Executable\<close>: the three configuration attributes of \<open>__init__\<close> and the five
  abstract methods, which a subclass supplies (a class that leaves one of them abstract
  gives no value of this record). \<open>_make_request\<close> reads \<open>self.node_account_id\<close> (set by
  the engine just before) and may raise.
\<close>

record ('node, 'chan, 'req, 'resp, 'err, 'x, 'res) Executable =
  max_backoff :: int
  min_backoff :: int
  grpc_deadline :: int
  should_retry :: "'resp \<Rightarrow> ExecutionState"
  map_status_error :: "'resp \<Rightarrow> 'err"
  make_request :: "'node \<Rightarrow> 'x + 'req"
  get_method :: "'chan \<Rightarrow> ('req, 'resp) Method"
  map_response :: "'resp \<Rightarrow> 'node \<Rightarrow> 'req \<Rightarrow> 'res"

definition DEFAULT_MAX_BACKOFF :: int where "DEFAULT_MAX_BACKOFF = 8000"
definition DEFAULT_MIN_BACKOFF :: int where "DEFAULT_MIN_BACKOFF = 250"
definition DEFAULT_GRPC_DEADLINE :: int where "DEFAULT_GRPC_DEADLINE = 10000"

text \<open>
  The value of \<open>err_persistant\<close>: the mapped status error of a RETRY response, or the
  text built from a transport error.
\<close>

datatype 'err last_error = StatusErr 'err | Text string

text \<open>
  What \<open>time.sleep\<close> can raise: \<open>ValueError\<close> on a negative length, \<open>OverflowError\<close> on
  a length beyond the range of the platform's time type (or of a float), \<open>OSError\<close> when
  the system call refuses the length.
\<close>

datatype sleep_error = SleepValueError | SleepOverflowError | SleepOSError

text \<open>
  \<open>time.sleep\<close> as \<open>_delay_for_attempt\<close> calls it. Its argument is the float
  \<open>current_backoff * 0.001\<close>, and which lengths it accepts depends on the platform and on
  the clock at the time of the call (the tests replace it by a mock that accepts every
  length). It is therefore a parameter of the model: called during a given attempt with
  \<open>current_backoff\<close> (in milliseconds) it returns, \<open>None\<close>, or raises.
\<close>

type_synonym sleep = "nat \<Rightarrow> int \<Rightarrow> sleep_error option"

text \<open>Everything \<open>_execute\<close> can raise.\<close>

datatype ('node, 'err, 'x) exn =
    StatusError 'err
  | MaxAttemptsError string 'node "'err last_error option"
  | NoMethod
  | RequestError 'x
  | ZeroDivisionError
  | SleepError sleep_error

text \<open>
  The effects of one execution, in order: a call of a stub (with the node the channel was
  bound to), a blocking sleep (the argument of \<open>_delay_for_attempt\<close>, in milliseconds),
  a call of \<open>client._switch_node\<close>.
\<close>

datatype ('node, 'req) event = Dispatch 'node 'req | Sleep int | SwitchNode 'node

fun dispatches :: "('node, 'req) event list \<Rightarrow> ('node \<times> 'req) list" where
  "dispatches [] = []"
| "dispatches (Dispatch n r # es) = (n, r) # dispatches es"
| "dispatches (Sleep d # es) = dispatches es"
| "dispatches (SwitchNode n # es) = dispatches es"

fun sleeps :: "('node, 'req) event list \<Rightarrow> int list" where
  "sleeps [] = []"
| "sleeps (Dispatch n r # es) = sleeps es"
| "sleeps (Sleep d # es) = d # sleeps es"
| "sleeps (SwitchNode n # es) = sleeps es"

fun switches :: "('node, 'req) event list \<Rightarrow> 'node list" where
  "switches [] = []"
| "switches (Dispatch n r # es) = switches es"
| "switches (Sleep d # es) = switches es"
| "switches (SwitchNode n # es) = n # switches es"

text \<open>
  The mutable state of \<open>_execute\<close>: the client (whose current node changes), the
  attribute \<open>self.node_account_id\<close>, the locals \<open>current_backoff\<close> and \<open>err_persistant\<close>,
  and the effects so far.
\<close>

record ('node, 'chan, 'req, 'err) ExecState =
  client :: "('node, 'chan) Client"
  self_node_account_id :: "'node option"
  current_backoff :: int
  err_persistant :: "'err last_error option"
  trace :: "('node, 'req) event list"

text \<open>How one iteration of the \<open>for\<close> loop ends.\<close>

datatype ('e, 'r) control = Continue | Raise 'e | Return 'r

text \<open>
  \<open>_delay_for_attempt\<close>: \<open>time.sleep(current_backoff * 0.001)\<close>, with \<open>time.sleep\<close> as it
  answers during the current attempt. What it raises leaves \<open>_execute\<close>; a sleep that
  returns is recorded with its length in milliseconds.
\<close>

definition delay_for_attempt ::
  "(int \<Rightarrow> sleep_error option) \<Rightarrow> int \<Rightarrow> ('node, 'chan, 'req, 'err) ExecState \<Rightarrow>
     ('node, 'err, 'x) exn + ('node, 'chan, 'req, 'err) ExecState" where
  "delay_for_attempt time_sleep backoff st =
     (case time_sleep backoff of
        Some e \<Rightarrow> Inl (SleepError e)
      | None \<Rightarrow> Inr (st\<lparr>trace := trace st @ [Sleep backoff]\<rparr>))"

text \<open>Lines 166-167: the doubling at the head of every iteration but the first.\<close>

definition next_backoff :: "int \<Rightarrow> nat \<Rightarrow> int \<Rightarrow> int" where
  "next_backoff max_b attempt backoff =
     (if attempt > 0 \<and> backoff < max_b then backoff * 2 else backoff)"

text \<open>The \<open>match\<close> on the execution state of a response that arrived.\<close>

definition on_response ::
  "('node, 'chan, 'req, 'resp, 'err, 'x, 'res) Executable \<Rightarrow> (int \<Rightarrow> sleep_error option) \<Rightarrow>
     'req \<Rightarrow> 'resp \<Rightarrow> ('node, 'chan, 'req, 'err) ExecState \<Rightarrow>
     (('node, 'err, 'x) exn, 'res) control \<times> ('node, 'chan, 'req, 'err) ExecState" where
  "on_response self time_sleep proto_request response st =
     (let status_error = map_status_error self response in
      case should_retry self response of
        RETRY \<Rightarrow>
          (let st1 = st\<lparr>err_persistant := Some (StatusErr status_error)\<rparr> in
           case delay_for_attempt time_sleep (current_backoff st1) st1 of
             Inl e \<Rightarrow> (Raise e, st1)
           | Inr st2 \<Rightarrow> (Continue, st2))
      | EXPIRED \<Rightarrow> (Raise (StatusError status_error), st)
      | ERROR \<Rightarrow> (Raise (StatusError status_error), st)
      | FINISHED \<Rightarrow>
          (Return (map_response self response (node_account_id (client st)) proto_request), st))"

text \<open>The \<open>except grpc.RpcError\<close> branch, lines 205-213.\<close>

definition on_rpc_error ::
  "nat \<Rightarrow> RpcError \<Rightarrow> ('node, 'chan, 'req, 'err) ExecState \<Rightarrow>
     (('node, 'err, 'x) exn, 'res) control \<times> ('node, 'chan, 'req, 'err) ExecState" where
  "on_rpc_error attempt e st =
     (let st1 = st\<lparr>err_persistant :=
                   Some (Text (''Status: '' @ rpc_code e @ '', Details: '' @ rpc_details e))\<rparr>;
          ids = node_account_ids (client st1)
      in if length ids = 0 then (Raise ZeroDivisionError, st1)
         else
           (let node_index = (attempt + 1) mod length ids;
                current_node_account_id = ids ! node_index
            in (Continue,
                st1\<lparr>client := switch_node (client st1) current_node_account_id,
                    trace := trace st1 @ [SwitchNode current_node_account_id]\<rparr>)))"

text \<open>The body of the \<open>for\<close> loop, lines 165-213, for one value of \<open>attempt\<close>.\<close>

definition attempt_body ::
  "('node, 'chan, 'req, 'resp, 'err, 'x, 'res) Executable \<Rightarrow> sleep \<Rightarrow> nat \<Rightarrow>
     ('node, 'chan, 'req, 'err) ExecState \<Rightarrow>
     (('node, 'err, 'x) exn, 'res) control \<times> ('node, 'chan, 'req, 'err) ExecState" where
  "attempt_body self time_sleep attempt st =
     (let st1 = st\<lparr>current_backoff :=
                   next_backoff (max_backoff self) attempt (current_backoff st)\<rparr>;
          chan = channel (client st1) attempt (node_account_id (client st1));
          st2 = st1\<lparr>self_node_account_id := Some (node_account_id (client st1))\<rparr>;
          method = get_method self chan
      in case make_request self (node_account_id (client st2)) of
           Inl x \<Rightarrow> (Raise (RequestError x), st2)
         | Inr proto_request \<Rightarrow>
             (case execute_method method proto_request of
                Inl NoMethodToExecute \<Rightarrow> (Raise NoMethod, st2)
              | Inl (Rpc e) \<Rightarrow>
                  on_rpc_error attempt e
                    (st2\<lparr>trace := trace st2 @
                       [Dispatch (node_account_id (client st2)) proto_request]\<rparr>)
              | Inr response \<Rightarrow>
                  on_response self (time_sleep attempt) proto_request response
                    (st2\<lparr>trace := trace st2 @
                       [Dispatch (node_account_id (client st2)) proto_request]\<rparr>)))"

text \<open>
  The loop \<open>for attempt in range(max_attempts)\<close> from a given value of \<open>attempt\<close> on, and
  the \<open>raise MaxAttemptsError\<close> that follows it. \<open>max_attempts\<close> is the local read from
  the client once, before the loop.
\<close>

function execute_loop ::
  "('node, 'chan, 'req, 'resp, 'err, 'x, 'res) Executable \<Rightarrow> sleep \<Rightarrow> int \<Rightarrow> nat \<Rightarrow>
     ('node, 'chan, 'req, 'err) ExecState \<Rightarrow>
     (('node, 'err, 'x) exn + 'res) \<times> ('node, 'chan, 'req, 'err) ExecState" where
  "execute_loop self time_sleep max_att attempt st =
     (if int attempt < max_att then
        (case attempt_body self time_sleep attempt st of
           (Continue, st') \<Rightarrow> execute_loop self time_sleep max_att (Suc attempt) st'
         | (Raise e, st') \<Rightarrow> (Inl e, st')
         | (Return r, st') \<Rightarrow> (Inr r, st'))
      else
        (Inl (MaxAttemptsError ''Exceeded maximum attempts for request''
                (node_account_id (client st)) (err_persistant st)), st))"
  by pat_completeness auto
termination
  by (relation "measure (\<lambda>(self, time_sleep, max_att, attempt, st). nat max_att - attempt)") auto

declare execute_loop.simps [simp del]

text \<open>The state at the entry of the loop, lines 160-162.\<close>

definition initial_state ::
  "('node, 'chan, 'req, 'resp, 'err, 'x, 'res) Executable \<Rightarrow> ('node, 'chan) Client \<Rightarrow>
     ('node, 'chan, 'req, 'err) ExecState" where
  "initial_state self c =
     \<lparr>client = c, self_node_account_id = None, current_backoff = min_backoff self,
      err_persistant = None, trace = []\<rparr>"

text \<open>\<open>_Executable._execute\<close>.\<close>

definition execute ::
  "('node, 'chan, 'req, 'resp, 'err, 'x, 'res) Executable \<Rightarrow> sleep \<Rightarrow> ('node, 'chan) Client \<Rightarrow>
     (('node, 'err, 'x) exn + 'res) \<times> ('node, 'chan, 'req, 'err) ExecState" where
  "execute self time_sleep c =
     execute_loop self time_sleep (max_attempts c) 0 (initial_state self c)"

subsection \<open>The delays of a run of busy answers\<close>

text \<open>
  The effects of \<open>k\<close> consecutive iterations, from iteration \<open>attempt\<close> on with
  \<open>current_backoff = backoff\<close>, when each of them dispatches to node \<open>n\<close> and takes the
  RETRY branch: the doubling of lines 166-167, the dispatch, the sleep.
\<close>

fun retry_events ::
  "int \<Rightarrow> 'node \<Rightarrow> 'req \<Rightarrow> nat \<Rightarrow> int \<Rightarrow> nat \<Rightarrow> ('node, 'req) event list" where
  "retry_events max_b n proto_request attempt backoff 0 = []"
| "retry_events max_b n proto_request attempt backoff (Suc k) =
     Dispatch n proto_request # Sleep (next_backoff max_b attempt backoff) #
       retry_events max_b n proto_request (Suc attempt) (next_backoff max_b attempt backoff) k"

text \<open>
  The delay that such a run sleeps at its iteration \<open>attempt + j\<close>.
\<close>

fun delay_from :: "int \<Rightarrow> nat \<Rightarrow> int \<Rightarrow> nat \<Rightarrow> int" where
  "delay_from max_b attempt backoff 0 = next_backoff max_b attempt backoff"
| "delay_from max_b attempt backoff (Suc j) =
     delay_from max_b (Suc attempt) (next_backoff max_b attempt backoff) j"

text \<open>
  The delay sequence in the words of the specification: \<open>delay(0) = floor\<close> and
  \<open>delay(k) = min(delay(k-1) * 2, ceiling)\<close>.
\<close>

fun spec_delay :: "int \<Rightarrow> int \<Rightarrow> nat \<Rightarrow> int" where
  "spec_delay floor_b ceiling_b 0 = floor_b"
| "spec_delay floor_b ceiling_b (Suc k) = min (spec_delay floor_b ceiling_b k * 2) ceiling_b"

section \<open>Transactions\<close>

text \<open>\<open>raise ValueError(message)\<close>.\<close>

datatype ValueError = ValueError string

text \<open>
  Modelled from the spec: the class \<open>_Channel\<close> is not among the sources. It exposes the
  named remote procedures of the node it is bound to, grouped by service area; here the
  two that the transactions below use.
\<close>

record ('req, 'resp) Channel =
  topic_updateTopic :: "('req, 'resp) stub"
  token_unfreezeTokenAccount :: "('req, 'resp) stub"

text \<open>
  Modelled from the spec: the base class \<open>Transaction\<close> is not among the sources. Its
  \<open>_make_request\<close> builds the wire payload afresh at every call from the subclass's
  \<open>build_transaction_body\<close> and lets the validation error of the builder through; the
  classification of responses, the mapping of errors and of results and the configuration
  come with \<open>base\<close>. The method handle is the subclass's own \<open>_get_method\<close>, so this
  applies to a transaction class that defines one.
\<close>

definition Transaction_executable ::
  "('node, 'chan, 'req, 'resp, 'err, ValueError, 'res) Executable \<Rightarrow>
     ('node \<Rightarrow> ValueError + 'req) \<Rightarrow> ('chan \<Rightarrow> ('req, 'resp) Method) \<Rightarrow>
     ('node, 'chan, 'req, 'resp, 'err, ValueError, 'res) Executable" where
  "Transaction_executable base build_transaction_body method_of =
     base\<lparr>make_request := build_transaction_body, get_method := method_of\<rparr>"

subsection \<open>\<open>consensus/topic_update_transaction.py\<close>\<close>

text \<open>
  The attributes of a \<open>TopicUpdateTransaction\<close>. The constructor stores \<open>memo or ""\<close>, so
  the memo is a string; the auto-renew period is a \<open>Duration\<close>, kept as its seconds.
\<close>

record ('topic, 'key, 'acct, 'time) TopicUpdateTransaction =
  topic_id :: "'topic option"
  memo :: string
  admin_key :: "'key option"
  submit_key :: "'key option"
  auto_renew_period :: "int option"
  auto_renew_account :: "'acct option"
  expiration_time :: "'time option"
  transaction_fee :: int

text \<open>
  The protobuf message \<open>ConsensusUpdateTopicTransactionBody\<close>, with the \<open>to_proto()\<close>
  encodings of the values left abstract.
\<close>

record ('topic, 'key, 'acct, 'time) ConsensusUpdateTopicTransactionBody =
  topicID :: 'topic
  adminKey :: "'key option"
  submitKey :: "'key option"
  autoRenewPeriod :: "int option"
  autoRenewAccount :: "'acct option"
  expirationTime :: "'time option"
  memoValue :: "string option"

text \<open>
  \<open>TopicUpdateTransaction.build_transaction_body\<close>. The first argument is what
  \<open>build_base_transaction_body()\<close> returns; the result is that body with its
  \<open>consensusUpdateTopic\<close> part.
\<close>

definition TopicUpdateTransaction_build_transaction_body ::
  "'body \<Rightarrow> ('topic, 'key, 'acct, 'time) TopicUpdateTransaction \<Rightarrow>
     ValueError + ('body \<times> ('topic, 'key, 'acct, 'time) ConsensusUpdateTopicTransactionBody)" where
  "TopicUpdateTransaction_build_transaction_body base_body tx =
     (case topic_id tx of
        None \<Rightarrow> Inl (ValueError ''Missing required fields: topic_id'')
      | Some t \<Rightarrow>
          Inr (base_body,
               \<lparr>topicID = t,
                adminKey = admin_key tx,
                submitKey = submit_key tx,
                autoRenewPeriod = auto_renew_period tx,
                autoRenewAccount = auto_renew_account tx,
                expirationTime = expiration_time tx,
                memoValue = (if memo tx \<noteq> [] then Some (memo tx) else None)\<rparr>))"

text \<open>\<open>TopicUpdateTransaction._get_method\<close>.\<close>

definition TopicUpdateTransaction_get_method ::
  "('req, 'resp) Channel \<Rightarrow> ('req, 'resp) Method" where
  "TopicUpdateTransaction_get_method chan =
     \<lparr>query = None, transaction = Some (topic_updateTopic chan)\<rparr>"

subsection \<open>\<open>tokens/token_unfreeze_transaction.py\<close>\<close>

text \<open>
  The class defines \<open>build_transaction_body\<close> but no \<open>_get_method\<close> in these sources, so
  only its attributes and its builder are modelled and no executable is made of it.
\<close>

record ('token, 'acct) TokenUnfreezeTransaction =
  token_id :: "'token option"
  account_id :: "'acct option"

record ('token, 'acct) TokenUnfreezeAccountTransactionBody =
  account :: 'acct
  token :: 'token

text \<open>\<open>TokenUnfreezeTransaction.build_transaction_body\<close>.\<close>

definition TokenUnfreezeTransaction_build_transaction_body ::
  "'body \<Rightarrow> ('token, 'acct) TokenUnfreezeTransaction \<Rightarrow>
     ValueError + ('body \<times> ('token, 'acct) TokenUnfreezeAccountTransactionBody)" where
  "TokenUnfreezeTransaction_build_transaction_body base_body tx =
     (case token_id tx of
        None \<Rightarrow> Inl (ValueError ''Missing required TokenID.'')
      | Some t \<Rightarrow>
          (case account_id tx of
             None \<Rightarrow> Inl (ValueError ''Missing required AccountID.'')
           | Some a \<Rightarrow> Inr (base_body, \<lparr>account = a, token = t\<rparr>)))"

section \<open>A scripted network\<close>

text \<open>
  The scenarios of \<open>tests/test_executable.py\<close>: precheck codes, and a server that
  answers the attempts in order from a list of canned replies.
\<close>

datatype ResponseCode = OK | BUSY | TRANSACTION_EXPIRED | INVALID_TRANSACTION_BODY

text \<open>
  Modelled from the spec: \<open>Transaction._should_retry\<close> is not among the sources; the
  classification table of section 4.3.
\<close>

fun classify :: "ResponseCode \<Rightarrow> ExecutionState" where
  "classify BUSY = RETRY"
| "classify OK = FINISHED"
| "classify TRANSACTION_EXPIRED = EXPIRED"
| "classify INVALID_TRANSACTION_BODY = ERROR"

text \<open>
  The tests run under \<open>patch('time.sleep')\<close>: the mock returns at once for every length.
\<close>

definition patched_sleep :: sleep where
  "patched_sleep attempt backoff = None"

text \<open>
  An operation over the scripted network: the request names its target node, the channel
  of an attempt is the canned reply for it, and the transaction stub hands that reply out.
\<close>

definition scripted ::
  "int \<Rightarrow> int \<Rightarrow>
     (nat, RpcError + ResponseCode, nat, ResponseCode, ResponseCode, ValueError,
      ResponseCode \<times> nat) Executable" where
  "scripted min_b max_b =
     \<lparr>max_backoff = max_b, min_backoff = min_b, grpc_deadline = DEFAULT_GRPC_DEADLINE,
      should_retry = classify,
      map_status_error = (\<lambda>response. response),
      make_request = (\<lambda>node. Inr node),
      get_method = (\<lambda>reply. \<lparr>query = None, transaction = Some (\<lambda>proto_request. reply)\<rparr>),
      map_response = (\<lambda>response node proto_request. (response, node))\<rparr>"

text \<open>
  An operation with the default configuration of \<open>_Executable.__init__\<close> and the scripted
  classification, whose request builder and method handle a transaction class overrides.
\<close>

definition transaction_defaults ::
  "(nat, 'chan, 'req, ResponseCode, ResponseCode, ValueError, ResponseCode \<times> nat) Executable" where
  "transaction_defaults =
     \<lparr>max_backoff = DEFAULT_MAX_BACKOFF, min_backoff = DEFAULT_MIN_BACKOFF,
      grpc_deadline = DEFAULT_GRPC_DEADLINE,
      should_retry = classify,
      map_status_error = (\<lambda>response. response),
      make_request = (\<lambda>node. Inl (ValueError ''_make_request must be implemented by subclasses'')),
      get_method = (\<lambda>chan. \<lparr>query = None, transaction = None\<rparr>),
      map_response = (\<lambda>response node proto_request. (response, node))\<rparr>"

definition scripted_client ::
  "int \<Rightarrow> nat list \<Rightarrow> nat \<Rightarrow> (RpcError + ResponseCode) list \<Rightarrow>
     (nat, RpcError + ResponseCode) Client" where
  "scripted_client budget nodes current replies =
     \<lparr>max_attempts = budget, node_account_ids = nodes, node_account_id = current,
      channel = (\<lambda>attempt node.
        (case drop attempt replies of [] \<Rightarrow> Inr OK | reply # _ \<Rightarrow> reply))\<rparr>"

section \<open>Properties of the engine\<close>

subsection \<open>Auxiliary facts\<close>



lemma dispatches_append: "dispatches (xs @ ys) = dispatches xs @ dispatches ys"
  by (induction xs rule: dispatches.induct) simp_all

lemma sleeps_append: "sleeps (xs @ ys) = sleeps xs @ sleeps ys"
  by (induction xs rule: sleeps.induct) simp_all

lemma switches_append: "switches (xs @ ys) = switches xs @ switches ys"
  by (induction xs rule: switches.induct) simp_all

lemma execute_loop_exhausted:
  "\<not> int attempt < max_att \<Longrightarrow>
   execute_loop self time_sleep max_att attempt st =
     (Inl (MaxAttemptsError ''Exceeded maximum attempts for request''
            (node_account_id (client st)) (err_persistant st)), st)"
  by (subst execute_loop.simps) simp

lemma execute_loop_step:
  "int attempt < max_att \<Longrightarrow>
   execute_loop self time_sleep max_att attempt st =
     (case attempt_body self time_sleep attempt st of
        (Continue, st') \<Rightarrow> execute_loop self time_sleep max_att (Suc attempt) st'
      | (Raise e, st') \<Rightarrow> (Inl e, st')
      | (Return r, st') \<Rightarrow> (Inr r, st'))"
  by (subst execute_loop.simps) simp

lemma on_response_dispatches:
  "dispatches (trace (snd (on_response self time_sleep req resp st))) = dispatches (trace st)"
  by (simp add: on_response_def delay_for_attempt_def Let_def dispatches_append
      split: ExecutionState.splits option.splits)

lemma on_rpc_error_dispatches:
  "dispatches (trace (snd (on_rpc_error attempt e st))) = dispatches (trace st)"
  by (simp add: on_rpc_error_def Let_def dispatches_append)

lemma attempt_body_dispatches:
  "length (dispatches (trace (snd (attempt_body self time_sleep attempt st))))
     \<le> Suc (length (dispatches (trace st)))"
  by (simp add: attempt_body_def Let_def on_response_dispatches on_rpc_error_dispatches
      dispatches_append split: sum.splits method_error.splits)

lemma execute_loop_dispatches:
  "length (dispatches (trace (snd (execute_loop self time_sleep max_att attempt st))))
     \<le> length (dispatches (trace st)) + (nat max_att - attempt)"
proof (induction self time_sleep max_att attempt st rule: execute_loop.induct)
  case (1 self time_sleep max_att attempt st)
  show ?case
  proof (cases "int attempt < max_att")
    case False
    then show ?thesis by (simp add: execute_loop_exhausted)
  next
    case True
    obtain ctl st' where b: "attempt_body self time_sleep attempt st = (ctl, st')"
      by (cases "attempt_body self time_sleep attempt st")
    have le: "length (dispatches (trace st')) \<le> Suc (length (dispatches (trace st)))"
      using attempt_body_dispatches [of self time_sleep attempt st] b by simp
    have room: "Suc (nat max_att - Suc attempt) = nat max_att - attempt"
      using True by linarith
    show ?thesis
    proof (cases ctl)
      case Continue
      have "length (dispatches (trace (snd (execute_loop self time_sleep max_att (Suc attempt) st'))))
              \<le> length (dispatches (trace st')) + (nat max_att - Suc attempt)"
        using "1.IH" [OF True b [symmetric] Continue] .
      then show ?thesis
        using True b Continue le room by (simp add: execute_loop_step)
    next
      case (Raise e)
      then show ?thesis using True b le by (simp add: execute_loop_step)
    next
      case (Return r)
      then show ?thesis using True b le by (simp add: execute_loop_step)
    qed
  qed
qed

lemma retry_step:
  assumes req: "make_request self (node_account_id (client st)) = Inr proto_request"
    and resp: "execute_method
                 (get_method self (channel (client st) attempt (node_account_id (client st))))
                 proto_request = Inr response"
    and cls: "should_retry self response = RETRY"
    and slept: "time_sleep attempt
                  (next_backoff (max_backoff self) attempt (current_backoff st)) = None"
  shows "attempt_body self time_sleep attempt st =
           (Continue,
            st\<lparr>current_backoff := next_backoff (max_backoff self) attempt (current_backoff st),
               self_node_account_id := Some (node_account_id (client st)),
               trace := trace st @
                 [Dispatch (node_account_id (client st)) proto_request,
                  Sleep (next_backoff (max_backoff self) attempt (current_backoff st))],
               err_persistant := Some (StatusErr (map_status_error self response))\<rparr>)"
  using req resp cls slept
  by (simp add: attempt_body_def on_response_def delay_for_attempt_def Let_def)

lemma retry_frame:
  assumes req: "make_request self (node_account_id (client st)) = Inr proto_request"
    and resp: "execute_method
                 (get_method self (channel (client st) attempt (node_account_id (client st))))
                 proto_request = Inr response"
    and cls: "should_retry self response = RETRY"
  shows "client (snd (attempt_body self time_sleep attempt st)) = client st"
    and "switches (trace (snd (attempt_body self time_sleep attempt st))) = switches (trace st)"
    and "dispatches (trace (snd (attempt_body self time_sleep attempt st))) =
           dispatches (trace st) @ [(node_account_id (client st), proto_request)]"
  using req resp cls
  by (simp_all add: attempt_body_def on_response_def delay_for_attempt_def Let_def
      switches_append dispatches_append split: option.splits)

lemma all_retry_loop:
  assumes req: "make_request self n = Inr proto_request"
    and busy: "\<And>k. attempt \<le> k \<Longrightarrow> int k < max_att \<Longrightarrow>
                 execute_method (get_method self (channel c k n)) proto_request = Inr (rs k)
                 \<and> should_retry self (rs k) = RETRY"
    and cl: "client st = c" and node: "node_account_id c = n"
    and slept: "\<And>j. int (attempt + j) < max_att \<Longrightarrow>
                  time_sleep (attempt + j)
                    (delay_from (max_backoff self) attempt (current_backoff st) j) = None"
  shows "fst (execute_loop self time_sleep max_att attempt st) =
           Inl (MaxAttemptsError ''Exceeded maximum attempts for request'' n
                  (if int attempt < max_att
                   then Some (StatusErr (map_status_error self (rs (nat max_att - 1))))
                   else err_persistant st))
         \<and> trace (snd (execute_loop self time_sleep max_att attempt st)) =
             trace st @ retry_events (max_backoff self) n proto_request attempt
               (current_backoff st) (nat max_att - attempt)
         \<and> client (snd (execute_loop self time_sleep max_att attempt st)) = c"
  using req busy cl slept
proof (induction self time_sleep max_att attempt st rule: execute_loop.induct)
  case (1 self time_sleep max_att attempt st)
  note req = "1.prems"(1) and busy = "1.prems"(2) and cl = "1.prems"(3)
    and slept = "1.prems"(4)
  show ?case
  proof (cases "int attempt < max_att")
    case False
    then have "nat max_att - attempt = 0" by linarith
    with False cl node show ?thesis by (simp add: execute_loop_exhausted)
  next
    case True
    let ?b = "next_backoff (max_backoff self) attempt (current_backoff st)"
    let ?st' = "st\<lparr>current_backoff := ?b,
               self_node_account_id := Some (node_account_id (client st)),
               trace := trace st @ [Dispatch (node_account_id (client st)) proto_request, Sleep ?b],
               err_persistant := Some (StatusErr (map_status_error self (rs attempt)))\<rparr>"
    have here: "execute_method (get_method self (channel c attempt n)) proto_request = Inr (rs attempt)"
      "should_retry self (rs attempt) = RETRY"
      using busy [of attempt] True by simp_all
    have cur: "node_account_id (client st) = n"
      using cl node by simp
    have body: "attempt_body self time_sleep attempt st = (Continue, ?st')"
    proof (rule retry_step)
      show "make_request self (node_account_id (client st)) = Inr proto_request"
        using req cur by simp
      show "execute_method
              (get_method self (channel (client st) attempt (node_account_id (client st))))
              proto_request = Inr (rs attempt)"
        using here cur cl by simp
      show "should_retry self (rs attempt) = RETRY" by (rule here)
      show "time_sleep attempt ?b = None"
        using slept [of 0] True by simp
    qed
    have unfold: "execute_loop self time_sleep max_att attempt st =
                    execute_loop self time_sleep max_att (Suc attempt) ?st'"
      using True body by (simp add: execute_loop_step)
    have later: "\<And>k. Suc attempt \<le> k \<Longrightarrow> int k < max_att \<Longrightarrow>
                 execute_method (get_method self (channel c k n)) proto_request = Inr (rs k)
                 \<and> should_retry self (rs k) = RETRY"
      using busy by simp
    have cl': "client ?st' = c" using cl by simp
    have slept': "\<And>j. int (Suc attempt + j) < max_att \<Longrightarrow>
                  time_sleep (Suc attempt + j)
                    (delay_from (max_backoff self) (Suc attempt) (current_backoff ?st') j) = None"
      using slept [of "Suc j" for j] by simp
    have ih: "fst (execute_loop self time_sleep max_att (Suc attempt) ?st') =
           Inl (MaxAttemptsError ''Exceeded maximum attempts for request'' n
                  (if int (Suc attempt) < max_att
                   then Some (StatusErr (map_status_error self (rs (nat max_att - 1))))
                   else err_persistant ?st'))
         \<and> trace (snd (execute_loop self time_sleep max_att (Suc attempt) ?st')) =
             trace ?st' @ retry_events (max_backoff self) n proto_request (Suc attempt)
               (current_backoff ?st') (nat max_att - Suc attempt)
         \<and> client (snd (execute_loop self time_sleep max_att (Suc attempt) ?st')) = c"
      by (rule "1.IH" [OF True body [symmetric] refl req later cl' slept'])
    have cnt: "nat max_att - attempt = Suc (nat max_att - Suc attempt)"
      using True by linarith
    have last: "\<not> int (Suc attempt) < max_att \<Longrightarrow> nat max_att - 1 = attempt"
      using True by linarith
    show ?thesis
      using ih True cur last unfolding unfold cnt
      by auto
  qed
qed

lemma dispatches_retry_events:
  "dispatches (retry_events max_b n r attempt b k) = replicate k (n, r)"
  by (induction k arbitrary: attempt b) simp_all

lemma length_sleeps_retry_events:
  "length (sleeps (retry_events max_b n r attempt b k)) = k"
  by (induction k arbitrary: attempt b) simp_all

lemma retry_events_ends_with_sleep:
  "0 < k \<Longrightarrow> \<exists>es d. retry_events max_b n r attempt b k = es @ [Sleep d]"
proof (induction k arbitrary: attempt b)
  case 0
  then show ?case by simp
next
  case (Suc k)
  show ?case
  proof (cases k)
    case 0
    then show ?thesis by simp
  next
    case (Suc j)
    then obtain es d where
      "retry_events max_b n r (Suc attempt) (next_backoff max_b attempt b) k = es @ [Sleep d]"
      using Suc.IH [of "Suc attempt" "next_backoff max_b attempt b"] by auto
    then show ?thesis by simp
  qed
qed


lemma transport_failure_step:
  assumes req: "make_request self (node_account_id (client st)) = Inr proto_request"
    and resp: "execute_method
                 (get_method self (channel (client st) attempt (node_account_id (client st))))
                 proto_request = Inl (Rpc e)"
    and nodes: "node_account_ids (client st) \<noteq> []"
  shows "attempt_body self time_sleep attempt st =
           (Continue,
            st\<lparr>current_backoff := next_backoff (max_backoff self) attempt (current_backoff st),
               self_node_account_id := Some (node_account_id (client st)),
               err_persistant :=
                 Some (Text (''Status: '' @ rpc_code e @ '', Details: '' @ rpc_details e)),
               client := switch_node (client st)
                 (node_account_ids (client st) !
                    ((attempt + 1) mod length (node_account_ids (client st)))),
               trace := trace st @
                 [Dispatch (node_account_id (client st)) proto_request,
                  SwitchNode (node_account_ids (client st) !
                    ((attempt + 1) mod length (node_account_ids (client st))))]\<rparr>)"
  using req resp nodes
  by (simp add: attempt_body_def on_rpc_error_def Let_def switch_node_def)

lemma request_error_step:
  assumes req: "make_request self (node_account_id (client st)) = Inl x"
    and budget: "int attempt < max_att"
  shows "execute_loop self time_sleep max_att attempt st =
           (Inl (RequestError x),
            st\<lparr>current_backoff := next_backoff (max_backoff self) attempt (current_backoff st),
               self_node_account_id := Some (node_account_id (client st))\<rparr>)"
  using req budget by (simp add: execute_loop_step attempt_body_def Let_def)

lemma scripted_busy_twice:
  "\<forall>k. int k < max_attempts (scripted_client 2 [3] 3 [Inr BUSY, Inr BUSY]) \<longrightarrow>
     execute_method
       (get_method (scripted 250 8000)
          (channel (scripted_client 2 [3] 3 [Inr BUSY, Inr BUSY]) k
             (node_account_id (scripted_client 2 [3] 3 [Inr BUSY, Inr BUSY]))))
       3 = Inr ((\<lambda>k. BUSY) k)
     \<and> should_retry (scripted 250 8000) ((\<lambda>k. BUSY) k) = RETRY"
proof (intro allI impI)
  fix k :: nat
  assume "int k < max_attempts (scripted_client 2 [3] 3 [Inr BUSY, Inr BUSY])"
  then have "k = 0 \<or> k = 1" by (simp add: scripted_client_def) linarith
  then show "execute_method
       (get_method (scripted 250 8000)
          (channel (scripted_client 2 [3] 3 [Inr BUSY, Inr BUSY]) k
             (node_account_id (scripted_client 2 [3] 3 [Inr BUSY, Inr BUSY]))))
       3 = Inr ((\<lambda>k. BUSY) k)
     \<and> should_retry (scripted 250 8000) ((\<lambda>k. BUSY) k) = RETRY"
    by (auto simp: scripted_def scripted_client_def execute_method_def call_stub_def)
qed

lemma Transaction_executable_fields:
  "make_request (Transaction_executable base build method_of) = build"
  "get_method (Transaction_executable base build method_of) = method_of"
  "max_backoff (Transaction_executable base build method_of) = max_backoff base"
  "min_backoff (Transaction_executable base build method_of) = min_backoff base"
  by (simp_all add: Transaction_executable_def)

text \<open>
  When the ceiling is the floor doubled \<open>j\<close> times, as with the defaults
  (\<open>8000 = 250 * 2 ^ 5\<close>), the delays of a run of busy answers are those of the
  specification's recurrence.
\<close>

lemma spec_delay_doubling:
  "0 < floor_b \<Longrightarrow> spec_delay floor_b (floor_b * 2 ^ j) k = floor_b * 2 ^ min k j"
proof (induction k)
  case 0
  then show ?case by simp
next
  case (Suc k)
  show ?case
  proof (cases "k < j")
    case True
    then have "(2::int) ^ Suc k \<le> 2 ^ j" by (intro power_increasing) simp_all
    then have "floor_b * 2 ^ Suc k \<le> floor_b * 2 ^ j"
      using Suc.prems by simp
    with True Suc show ?thesis by (simp add: min_def mult.commute mult.left_commute)
  next
    case False
    with Suc show ?thesis by (simp add: min_def)
  qed
qed

lemma next_backoff_doubling:
  assumes "0 < floor_b"
  shows "next_backoff (floor_b * 2 ^ j) (Suc k) (floor_b * 2 ^ min k j) =
           floor_b * 2 ^ min (Suc k) j"
proof (cases "k < j")
  case True
  then have "(2::int) ^ k < 2 ^ j" by (intro power_strict_increasing) simp_all
  then have "floor_b * 2 ^ k < floor_b * 2 ^ j" using assms by simp
  with True show ?thesis by (simp add: next_backoff_def min_def)
next
  case False
  then show ?thesis by (simp add: next_backoff_def min_def)
qed

lemma sleeps_retry_events_doubling:
  assumes "0 < floor_b"
    and "next_backoff (floor_b * 2 ^ j) attempt b = floor_b * 2 ^ min attempt j"
  shows "sleeps (retry_events (floor_b * 2 ^ j) n r attempt b k) =
           map (spec_delay floor_b (floor_b * 2 ^ j)) [attempt..<attempt + k]"
  using assms(2)
proof (induction k arbitrary: attempt b)
  case 0
  then show ?case by simp
next
  case (Suc k)
  have "sleeps (retry_events (floor_b * 2 ^ j) n r (Suc attempt)
                  (next_backoff (floor_b * 2 ^ j) attempt b) k) =
          map (spec_delay floor_b (floor_b * 2 ^ j)) [Suc attempt..<Suc attempt + k]"
    using Suc.IH [of "Suc attempt" "next_backoff (floor_b * 2 ^ j) attempt b"]
      Suc.prems next_backoff_doubling [OF assms(1), of j attempt] by simp
  then show ?case
    using Suc.prems spec_delay_doubling [OF assms(1), of j attempt]
    by (simp add: upt_rec [of attempt "Suc (attempt + k)"] del: upt_Suc)
qed

lemma default_backoff_meets_spec:
  "sleeps (retry_events DEFAULT_MAX_BACKOFF n r 0 DEFAULT_MIN_BACKOFF k) =
     map (spec_delay DEFAULT_MIN_BACKOFF DEFAULT_MAX_BACKOFF) [0..<k]"
proof -
  have m: "DEFAULT_MAX_BACKOFF = DEFAULT_MIN_BACKOFF * 2 ^ 5"
    by (simp add: DEFAULT_MAX_BACKOFF_def DEFAULT_MIN_BACKOFF_def)
  have p: "0 < DEFAULT_MIN_BACKOFF" by (simp add: DEFAULT_MIN_BACKOFF_def)
  have "next_backoff (DEFAULT_MIN_BACKOFF * 2 ^ 5) 0 DEFAULT_MIN_BACKOFF
          = DEFAULT_MIN_BACKOFF * 2 ^ min 0 5"
    by (simp add: next_backoff_def)
  from sleeps_retry_events_doubling [OF p this, of n r k] show ?thesis
    unfolding m by simp
qed

subsection \<open>Terminal classifications\<close>

text \<open>
  Claim C3. At any iteration that the attempt budget still allows, whatever the state of
  the loop, a response classified ERROR or EXPIRED makes the engine raise the classifier's
  mapped error at once: the result of the whole loop is that error, and the only effect
  added to the trace is the one dispatch that produced the response (no sleep, no node
  switch, no further dispatch).
\<close>

theorem terminal_response_raises_at_once:
  assumes budget: "int attempt < max_att"
    and req: "make_request self (node_account_id (client st)) = Inr proto_request"
    and resp: "execute_method
                 (get_method self (channel (client st) attempt (node_account_id (client st))))
                 proto_request = Inr response"
    and cls: "should_retry self response = ERROR \<or> should_retry self response = EXPIRED"
  shows "fst (execute_loop self time_sleep max_att attempt st) =
           Inl (StatusError (map_status_error self response))
         \<and> trace (snd (execute_loop self time_sleep max_att attempt st)) =
             trace st @ [Dispatch (node_account_id (client st)) proto_request]"
proof -
  have "attempt_body self time_sleep attempt st =
          (Raise (StatusError (map_status_error self response)),
           st\<lparr>current_backoff := next_backoff (max_backoff self) attempt (current_backoff st),
              self_node_account_id := Some (node_account_id (client st)),
              trace := trace st @ [Dispatch (node_account_id (client st)) proto_request]\<rparr>)"
    using req resp cls by (auto simp: attempt_body_def on_response_def Let_def)
  then show ?thesis using budget by (simp add: execute_loop_step)
qed

theorem terminal_response_raises_at_once_witness:
  "fst (execute (scripted 250 8000) patched_sleep
          (scripted_client 5 [3, 4] 3 [Inr TRANSACTION_EXPIRED, Inr OK])) =
     Inl (StatusError TRANSACTION_EXPIRED)
   \<and> trace (snd (execute (scripted 250 8000) patched_sleep
          (scripted_client 5 [3, 4] 3 [Inr TRANSACTION_EXPIRED, Inr OK]))) = [Dispatch 3 3]"
proof -
  let ?s = "scripted 250 8000"
  let ?c = "scripted_client 5 [3, 4] 3 [Inr TRANSACTION_EXPIRED, Inr OK]"
  have budget: "int 0 < max_attempts ?c" by (simp add: scripted_client_def)
  have req: "make_request ?s (node_account_id (client (initial_state ?s ?c))) = Inr 3"
    by (simp add: scripted_def scripted_client_def initial_state_def)
  have resp: "execute_method
      (get_method ?s (channel (client (initial_state ?s ?c)) 0
         (node_account_id (client (initial_state ?s ?c))))) 3 = Inr TRANSACTION_EXPIRED"
    by (simp add: scripted_def scripted_client_def initial_state_def execute_method_def
        call_stub_def)
  have cls: "should_retry ?s TRANSACTION_EXPIRED = ERROR
             \<or> should_retry ?s TRANSACTION_EXPIRED = EXPIRED"
    by (simp add: scripted_def)
  have st: "trace (initial_state ?s ?c) = []"
    "node_account_id (client (initial_state ?s ?c)) = 3"
    "map_status_error ?s TRANSACTION_EXPIRED = TRANSACTION_EXPIRED"
    by (simp_all add: initial_state_def scripted_client_def scripted_def)
  show ?thesis
    using terminal_response_raises_at_once [OF budget req resp cls, of patched_sleep] st
    by (simp add: execute_def)
qed

subsection \<open>The RETRY path leaves the node alone\<close>

text \<open>
  Claim C6. An iteration whose response is classified RETRY leaves the client, and so its
  current node, unchanged and calls no node switch, whatever the sleep does. When the
  sleep of the backoff delay returns (\<open>time.sleep\<close> raises on a negative length and on one
  too large for the platform), the iteration has dispatched once and slept that delay, and
  the loop goes on with the next attempt from a state with the same client.
\<close>

theorem retry_keeps_node:
  assumes req: "make_request self (node_account_id (client st)) = Inr proto_request"
    and resp: "execute_method
                 (get_method self (channel (client st) attempt (node_account_id (client st))))
                 proto_request = Inr response"
    and cls: "should_retry self response = RETRY"
  shows "client (snd (attempt_body self time_sleep attempt st)) = client st
         \<and> switches (trace (snd (attempt_body self time_sleep attempt st))) =
             switches (trace st)
         \<and> (time_sleep attempt
               (next_backoff (max_backoff self) attempt (current_backoff st)) = None \<longrightarrow>
              fst (attempt_body self time_sleep attempt st) = Continue
              \<and> trace (snd (attempt_body self time_sleep attempt st)) =
                  trace st @
                    [Dispatch (node_account_id (client st)) proto_request,
                     Sleep (next_backoff (max_backoff self) attempt (current_backoff st))])
         \<and> (time_sleep attempt
               (next_backoff (max_backoff self) attempt (current_backoff st)) = None
              \<and> int attempt < max_att \<longrightarrow>
              execute_loop self time_sleep max_att attempt st =
                execute_loop self time_sleep max_att (Suc attempt)
                  (snd (attempt_body self time_sleep attempt st)))"
proof -
  have frame: "client (snd (attempt_body self time_sleep attempt st)) = client st
         \<and> switches (trace (snd (attempt_body self time_sleep attempt st))) =
             switches (trace st)"
    using retry_frame(1,2) [OF req resp cls] by simp
  have step: "fst (attempt_body self time_sleep attempt st) = Continue
              \<and> trace (snd (attempt_body self time_sleep attempt st)) =
                  trace st @
                    [Dispatch (node_account_id (client st)) proto_request,
                     Sleep (next_backoff (max_backoff self) attempt (current_backoff st))]"
    if "time_sleep attempt
          (next_backoff (max_backoff self) attempt (current_backoff st)) = None"
    using retry_step [where time_sleep = time_sleep, OF req resp cls that] by simp
  have loop: "execute_loop self time_sleep max_att attempt st =
                execute_loop self time_sleep max_att (Suc attempt)
                  (snd (attempt_body self time_sleep attempt st))"
    if "time_sleep attempt
          (next_backoff (max_backoff self) attempt (current_backoff st)) = None"
      "int attempt < max_att"
    using retry_step [where time_sleep = time_sleep, OF req resp cls that(1)] that(2)
    by (simp add: execute_loop_step)
  show ?thesis using frame step loop by blast
qed

theorem retry_keeps_node_witness:
  "client (snd (attempt_body (scripted 250 8000) patched_sleep 0
       (initial_state (scripted 250 8000) (scripted_client 3 [3, 4] 3 [Inr BUSY, Inr OK]))))
     = scripted_client 3 [3, 4] 3 [Inr BUSY, Inr OK]
   \<and> trace (snd (attempt_body (scripted 250 8000) patched_sleep 0
       (initial_state (scripted 250 8000) (scripted_client 3 [3, 4] 3 [Inr BUSY, Inr OK]))))
     = [Dispatch 3 3, Sleep 250]
   \<and> fst (execute (scripted 250 8000) patched_sleep
       (scripted_client 3 [3, 4] 3 [Inr BUSY, Inr OK]))
     = Inr (OK, 3)"
proof -
  let ?c = "scripted_client 3 [3, 4] 3 [Inr BUSY, Inr OK]"
  let ?s = "scripted 250 8000"
  have req: "make_request ?s (node_account_id (client (initial_state ?s ?c))) = Inr 3"
    by (simp add: scripted_def scripted_client_def initial_state_def)
  have resp: "execute_method
      (get_method ?s (channel (client (initial_state ?s ?c)) 0
         (node_account_id (client (initial_state ?s ?c))))) 3 = Inr BUSY"
    by (simp add: scripted_def scripted_client_def initial_state_def execute_method_def
        call_stub_def)
  have cls: "should_retry ?s BUSY = RETRY" by (simp add: scripted_def)
  have slept: "patched_sleep 0
      (next_backoff (max_backoff ?s) 0 (current_backoff (initial_state ?s ?c))) = None"
    by (simp add: patched_sleep_def)
  note k = retry_keeps_node [OF req resp cls, of patched_sleep 3]
  have a: "client (snd (attempt_body ?s patched_sleep 0 (initial_state ?s ?c))) = ?c"
    using k by (simp add: initial_state_def)
  have b: "trace (snd (attempt_body ?s patched_sleep 0 (initial_state ?s ?c))) =
             [Dispatch 3 3, Sleep 250]"
    using k slept
    by (simp add: initial_state_def scripted_def scripted_client_def next_backoff_def)
  have c: "fst (execute ?s patched_sleep ?c) = Inr (OK, 3)"
    by (simp add: execute_def execute_loop.simps initial_state_def scripted_def
        scripted_client_def attempt_body_def execute_method_def call_stub_def on_response_def
        delay_for_attempt_def patched_sleep_def next_backoff_def Let_def)
  show ?thesis using a b c by simp
qed

subsection \<open>The attempt budget\<close>

text \<open>
  Claim C5. Whatever the operation, the client, the answers of the network (RETRY
  classifications, transport failures, terminal outcomes, in any mix) and the behaviour of
  the sleep, one call of \<open>execute\<close> performs at most \<open>max_attempts\<close> dispatches. An
  iteration whose response is classified RETRY and an iteration that ends in a transport
  failure each dispatch exactly once; when the loop goes on after them (the backoff sleep
  returns; the list of candidate nodes is not empty) it does so with the next value of
  \<open>attempt\<close>: one unit of the budget each.
\<close>

theorem total_dispatches_within_budget:
  "length (dispatches (trace (snd (execute self time_sleep c)))) \<le> nat (max_attempts c)
   \<and> (int attempt < max_att
        \<and> make_request self (node_account_id (client st)) = Inr proto_request
        \<and> execute_method
            (get_method self (channel (client st) attempt (node_account_id (client st))))
            proto_request = Inr response
        \<and> should_retry self response = RETRY \<longrightarrow>
        dispatches (trace (snd (attempt_body self time_sleep attempt st))) =
          dispatches (trace st) @ [(node_account_id (client st), proto_request)]
        \<and> (time_sleep attempt
              (next_backoff (max_backoff self) attempt (current_backoff st)) = None \<longrightarrow>
            execute_loop self time_sleep max_att attempt st =
              execute_loop self time_sleep max_att (Suc attempt)
                (snd (attempt_body self time_sleep attempt st))))
   \<and> (int attempt < max_att
        \<and> make_request self (node_account_id (client st)) = Inr proto_request
        \<and> execute_method
            (get_method self (channel (client st) attempt (node_account_id (client st))))
            proto_request = Inl (Rpc e)
        \<and> node_account_ids (client st) \<noteq> [] \<longrightarrow>
        dispatches (trace (snd (attempt_body self time_sleep attempt st))) =
          dispatches (trace st) @ [(node_account_id (client st), proto_request)]
        \<and> execute_loop self time_sleep max_att attempt st =
            execute_loop self time_sleep max_att (Suc attempt)
              (snd (attempt_body self time_sleep attempt st)))"
proof (intro conjI impI)
  show "length (dispatches (trace (snd (execute self time_sleep c)))) \<le> nat (max_attempts c)"
    using execute_loop_dispatches [of self time_sleep "max_attempts c" 0 "initial_state self c"]
    by (simp add: execute_def initial_state_def)
next
  assume a: "int attempt < max_att
        \<and> make_request self (node_account_id (client st)) = Inr proto_request
        \<and> execute_method
            (get_method self (channel (client st) attempt (node_account_id (client st))))
            proto_request = Inr response
        \<and> should_retry self response = RETRY"
  then show "dispatches (trace (snd (attempt_body self time_sleep attempt st))) =
          dispatches (trace st) @ [(node_account_id (client st), proto_request)]"
    using retry_frame(3) [where self = self and st = st and proto_request = proto_request
        and attempt = attempt and response = response and time_sleep = time_sleep]
    by simp
  assume slept: "time_sleep attempt
              (next_backoff (max_backoff self) attempt (current_backoff st)) = None"
  have body: "attempt_body self time_sleep attempt st =
           (Continue,
            st\<lparr>current_backoff := next_backoff (max_backoff self) attempt (current_backoff st),
               self_node_account_id := Some (node_account_id (client st)),
               trace := trace st @
                 [Dispatch (node_account_id (client st)) proto_request,
                  Sleep (next_backoff (max_backoff self) attempt (current_backoff st))],
               err_persistant := Some (StatusErr (map_status_error self response))\<rparr>)"
    using a slept
      retry_step [where self = self and st = st and proto_request = proto_request
        and attempt = attempt and response = response and time_sleep = time_sleep]
    by simp
  show "execute_loop self time_sleep max_att attempt st =
            execute_loop self time_sleep max_att (Suc attempt)
              (snd (attempt_body self time_sleep attempt st))"
    using body a by (simp add: execute_loop_step)
next
  assume a: "int attempt < max_att
        \<and> make_request self (node_account_id (client st)) = Inr proto_request
        \<and> execute_method
            (get_method self (channel (client st) attempt (node_account_id (client st))))
            proto_request = Inl (Rpc e)
        \<and> node_account_ids (client st) \<noteq> []"
  then have body: "fst (attempt_body self time_sleep attempt st) = Continue
      \<and> trace (snd (attempt_body self time_sleep attempt st)) =
          trace st @
            [Dispatch (node_account_id (client st)) proto_request,
             SwitchNode (node_account_ids (client st) !
               ((attempt + 1) mod length (node_account_ids (client st))))]"
    using transport_failure_step [of self st proto_request attempt e time_sleep] by simp
  show "dispatches (trace (snd (attempt_body self time_sleep attempt st))) =
          dispatches (trace st) @ [(node_account_id (client st), proto_request)]"
    using body by (simp add: dispatches_append)
  show "execute_loop self time_sleep max_att attempt st =
            execute_loop self time_sleep max_att (Suc attempt)
              (snd (attempt_body self time_sleep attempt st))"
    using body a
    by (cases "attempt_body self time_sleep attempt st") (simp add: execute_loop_step)
qed

theorem total_dispatches_within_budget_witness:
  "length (dispatches (trace (snd (execute (scripted 250 8000) patched_sleep
      (scripted_client 2 [3, 4, 5] 3
         [Inl (RpcError ''StatusCode.UNAVAILABLE'' ''Test error''), Inr BUSY, Inr OK]))))) \<le> 2
   \<and> dispatches (trace (snd (attempt_body (scripted 250 8000) patched_sleep 0
        (initial_state (scripted 250 8000)
           (scripted_client 2 [3, 4, 5] 3
              [Inl (RpcError ''StatusCode.UNAVAILABLE'' ''Test error''), Inr BUSY, Inr OK])))))
       = [(3, 3)]"
proof -
  let ?s = "scripted 250 8000"
  let ?e = "RpcError ''StatusCode.UNAVAILABLE'' ''Test error''"
  let ?c = "scripted_client 2 [3, 4, 5] 3 [Inl ?e, Inr BUSY, Inr OK]"
  note w = total_dispatches_within_budget
    [where self = ?s and time_sleep = patched_sleep and c = ?c and attempt = 0
       and max_att = 2 and st = "initial_state ?s ?c" and proto_request = 3 and e = ?e]
  have h: "int 0 < 2
        \<and> make_request ?s (node_account_id (client (initial_state ?s ?c))) = Inr 3
        \<and> execute_method
            (get_method ?s (channel (client (initial_state ?s ?c)) 0
               (node_account_id (client (initial_state ?s ?c))))) 3 = Inl (Rpc ?e)
        \<and> node_account_ids (client (initial_state ?s ?c)) \<noteq> []"
    by (simp add: scripted_def scripted_client_def initial_state_def execute_method_def
        call_stub_def)
  have n: "nat (max_attempts ?c) = 2" "node_account_id (client (initial_state ?s ?c)) = 3"
    "trace (initial_state ?s ?c) = []"
    by (simp_all add: scripted_client_def initial_state_def)
  show ?thesis
    using w [THEN conjunct1] w [THEN conjunct2, THEN conjunct2, rule_format, OF h] n
    by simp
qed

text \<open>
  Claim C4. With a budget of at least one attempt, if the response of every attempt
  within the budget is classified RETRY and the backoff sleep after each of them returns
  (\<open>time.sleep\<close> raises on a negative length and on one too large for the platform), then
  \<open>execute\<close> raises the attempts-exhausted error after exactly \<open>max_attempts\<close> dispatches,
  all of them to the client's node; the error carries that node and the mapped error of
  the last response.
\<close>

theorem all_retry_exhausts_budget:
  assumes budget: "1 \<le> max_attempts c"
    and req: "make_request self (node_account_id c) = Inr proto_request"
    and busy: "\<forall>k. int k < max_attempts c \<longrightarrow>
                 execute_method (get_method self (channel c k (node_account_id c)))
                   proto_request = Inr (rs k)
                 \<and> should_retry self (rs k) = RETRY"
    and slept: "\<forall>k. int k < max_attempts c \<longrightarrow>
                  time_sleep k (delay_from (max_backoff self) 0 (min_backoff self) k) = None"
  shows "fst (execute self time_sleep c) =
           Inl (MaxAttemptsError ''Exceeded maximum attempts for request'' (node_account_id c)
                  (Some (StatusErr (map_status_error self (rs (nat (max_attempts c) - 1))))))
         \<and> dispatches (trace (snd (execute self time_sleep c))) =
             replicate (nat (max_attempts c)) (node_account_id c, proto_request)"
proof -
  have run: "fst (execute_loop self time_sleep (max_attempts c) 0 (initial_state self c)) =
           Inl (MaxAttemptsError ''Exceeded maximum attempts for request'' (node_account_id c)
                  (if int 0 < max_attempts c
                   then Some (StatusErr (map_status_error self (rs (nat (max_attempts c) - 1))))
                   else err_persistant (initial_state self c)))
         \<and> trace (snd (execute_loop self time_sleep (max_attempts c) 0 (initial_state self c))) =
             trace (initial_state self c) @
               retry_events (max_backoff self) (node_account_id c) proto_request 0
                 (current_backoff (initial_state self c)) (nat (max_attempts c) - 0)
         \<and> client (snd (execute_loop self time_sleep (max_attempts c) 0
              (initial_state self c))) = c"
  proof (rule all_retry_loop [OF req])
    show "client (initial_state self c) = c" by (simp add: initial_state_def)
    show "node_account_id c = node_account_id c" by simp
    show "time_sleep (0 + j)
            (delay_from (max_backoff self) 0 (current_backoff (initial_state self c)) j) = None"
      if "int (0 + j) < max_attempts c" for j
      using slept that by (simp add: initial_state_def)
    show "execute_method (get_method self (channel c k (node_account_id c))) proto_request
            = Inr (rs k) \<and> should_retry self (rs k) = RETRY"
      if "0 \<le> k" "int k < max_attempts c" for k
      using busy that by blast
  qed
  then show ?thesis
    using budget by (simp add: execute_def initial_state_def dispatches_retry_events)
qed

theorem all_retry_exhausts_budget_witness:
  "fst (execute (scripted 250 8000) patched_sleep
         (scripted_client 2 [3] 3 [Inr BUSY, Inr BUSY])) =
     Inl (MaxAttemptsError ''Exceeded maximum attempts for request'' 3 (Some (StatusErr BUSY)))
   \<and> dispatches (trace (snd (execute (scripted 250 8000) patched_sleep
        (scripted_client 2 [3] 3 [Inr BUSY, Inr BUSY])))) = [(3, 3), (3, 3)]"
proof -
  let ?c = "scripted_client 2 [3] 3 [Inr BUSY, Inr BUSY]"
  let ?s = "scripted 250 8000"
  have budget: "1 \<le> max_attempts ?c" by (simp add: scripted_client_def)
  have req: "make_request ?s (node_account_id ?c) = Inr 3"
    by (simp add: scripted_def scripted_client_def)
  have slept: "\<forall>k. int k < max_attempts ?c \<longrightarrow>
      patched_sleep k (delay_from (max_backoff ?s) 0 (min_backoff ?s) k) = None"
    by (simp add: patched_sleep_def)
  note w = all_retry_exhausts_budget
    [where rs = "\<lambda>k. BUSY" and time_sleep = patched_sleep,
     OF budget req scripted_busy_twice slept]
  have two: "replicate (nat (max_attempts ?c)) (node_account_id ?c, 3::nat) = [(3, 3), (3, 3)]"
    by (simp add: scripted_client_def numeral_2_eq_2)
  show ?thesis using w two by (simp add: scripted_def) (simp add: scripted_client_def)
qed

text \<open>
  Claim C10. Under the same conditions the effects of the run are, for every attempt in
  turn, one dispatch followed by one sleep: \<open>max_attempts\<close> sleeps in all, the last of
  them after the final dispatch and straight before the attempts-exhausted error.
\<close>

theorem all_retry_sleeps_after_every_attempt:
  assumes budget: "1 \<le> max_attempts c"
    and req: "make_request self (node_account_id c) = Inr proto_request"
    and busy: "\<forall>k. int k < max_attempts c \<longrightarrow>
                 execute_method (get_method self (channel c k (node_account_id c)))
                   proto_request = Inr (rs k)
                 \<and> should_retry self (rs k) = RETRY"
    and slept: "\<forall>k. int k < max_attempts c \<longrightarrow>
                  time_sleep k (delay_from (max_backoff self) 0 (min_backoff self) k) = None"
  shows "trace (snd (execute self time_sleep c)) =
           retry_events (max_backoff self) (node_account_id c) proto_request 0
             (min_backoff self) (nat (max_attempts c))
         \<and> length (sleeps (trace (snd (execute self time_sleep c)))) = nat (max_attempts c)
         \<and> (\<exists>es d. trace (snd (execute self time_sleep c)) = es @ [Sleep d])
         \<and> (\<exists>e. fst (execute self time_sleep c) =
                Inl (MaxAttemptsError ''Exceeded maximum attempts for request''
                       (node_account_id c) e))"
proof -
  have run: "fst (execute_loop self time_sleep (max_attempts c) 0 (initial_state self c)) =
           Inl (MaxAttemptsError ''Exceeded maximum attempts for request'' (node_account_id c)
                  (if int 0 < max_attempts c
                   then Some (StatusErr (map_status_error self (rs (nat (max_attempts c) - 1))))
                   else err_persistant (initial_state self c)))
         \<and> trace (snd (execute_loop self time_sleep (max_attempts c) 0 (initial_state self c))) =
             trace (initial_state self c) @
               retry_events (max_backoff self) (node_account_id c) proto_request 0
                 (current_backoff (initial_state self c)) (nat (max_attempts c) - 0)
         \<and> client (snd (execute_loop self time_sleep (max_attempts c) 0
              (initial_state self c))) = c"
  proof (rule all_retry_loop [OF req])
    show "client (initial_state self c) = c" by (simp add: initial_state_def)
    show "node_account_id c = node_account_id c" by simp
    show "time_sleep (0 + j)
            (delay_from (max_backoff self) 0 (current_backoff (initial_state self c)) j) = None"
      if "int (0 + j) < max_attempts c" for j
      using slept that by (simp add: initial_state_def)
    show "execute_method (get_method self (channel c k (node_account_id c))) proto_request
            = Inr (rs k) \<and> should_retry self (rs k) = RETRY"
      if "0 \<le> k" "int k < max_attempts c" for k
      using busy that by blast
  qed
  have tr: "trace (snd (execute self time_sleep c)) =
           retry_events (max_backoff self) (node_account_id c) proto_request 0
             (min_backoff self) (nat (max_attempts c))"
    using run by (simp add: execute_def initial_state_def)
  have pos: "0 < nat (max_attempts c)" using budget by simp
  have last: "\<exists>es d. trace (snd (execute self time_sleep c)) = es @ [Sleep d]"
    unfolding tr by (rule retry_events_ends_with_sleep [OF pos])
  have res: "\<exists>e. fst (execute self time_sleep c) =
                Inl (MaxAttemptsError ''Exceeded maximum attempts for request''
                       (node_account_id c) e)"
    using run by (simp add: execute_def)
  show ?thesis using tr last res by (simp add: length_sleeps_retry_events)
qed

theorem all_retry_sleeps_after_every_attempt_witness:
  "trace (snd (execute (scripted 250 8000) patched_sleep
      (scripted_client 2 [3] 3 [Inr BUSY, Inr BUSY]))) =
     [Dispatch 3 3, Sleep 250, Dispatch 3 3, Sleep 500]
   \<and> length (sleeps (trace (snd (execute (scripted 250 8000) patched_sleep
        (scripted_client 2 [3] 3 [Inr BUSY, Inr BUSY]))))) = 2"
proof -
  let ?c = "scripted_client 2 [3] 3 [Inr BUSY, Inr BUSY]"
  let ?s = "scripted 250 8000"
  have budget: "1 \<le> max_attempts ?c" by (simp add: scripted_client_def)
  have req: "make_request ?s (node_account_id ?c) = Inr 3"
    by (simp add: scripted_def scripted_client_def)
  have slept: "\<forall>k. int k < max_attempts ?c \<longrightarrow>
      patched_sleep k (delay_from (max_backoff ?s) 0 (min_backoff ?s) k) = None"
    by (simp add: patched_sleep_def)
  note w = all_retry_sleeps_after_every_attempt
    [where rs = "\<lambda>k. BUSY" and time_sleep = patched_sleep,
     OF budget req scripted_busy_twice slept]
  have ev: "retry_events (max_backoff ?s) (node_account_id ?c) (3::nat) 0 (min_backoff ?s)
              (nat (max_attempts ?c)) = [Dispatch 3 3, Sleep 250, Dispatch 3 3, Sleep 500]"
    by (simp add: scripted_def scripted_client_def numeral_2_eq_2 next_backoff_def)
  show ?thesis using w ev by simp
qed

text \<open>
  Claim C9. With an attempt budget of zero the loop body never runs: no dispatch, no
  sleep, and the attempts-exhausted error is raised for the client's node with no recorded
  last error.
\<close>

theorem zero_budget:
  "max_attempts c = 0 \<Longrightarrow>
   execute self time_sleep c =
     (Inl (MaxAttemptsError ''Exceeded maximum attempts for request'' (node_account_id c) None),
      initial_state self c)
   \<and> dispatches (trace (snd (execute self time_sleep c))) = []
   \<and> sleeps (trace (snd (execute self time_sleep c))) = []"
  by (simp add: execute_def execute_loop_exhausted initial_state_def)

theorem zero_budget_witness:
  "fst (execute (scripted 250 8000) patched_sleep (scripted_client 0 [3, 4] 3 [Inr OK])) =
     Inl (MaxAttemptsError ''Exceeded maximum attempts for request'' 3 None)
   \<and> dispatches (trace (snd (execute (scripted 250 8000) patched_sleep
        (scripted_client 0 [3, 4] 3 [Inr OK])))) = []
   \<and> sleeps (trace (snd (execute (scripted 250 8000) patched_sleep
        (scripted_client 0 [3, 4] 3 [Inr OK])))) = []"
proof -
  have none: "max_attempts (scripted_client 0 [3, 4] 3 [Inr OK]) = 0"
    by (simp add: scripted_client_def)
  have node: "node_account_id (scripted_client 0 [3, 4] 3 [Inr OK]) = 3"
    by (simp add: scripted_client_def)
  show ?thesis
    using zero_budget [OF none, of "scripted 250 8000" patched_sleep] node
    by (simp add: initial_state_def)
qed

subsection \<open>The method handle\<close>

text \<open>
  Claim C8. \<open>_execute_method\<close> calls the transaction slot when only it is populated and the
  query slot when only it is populated; when exactly one slot is populated the failure
  "No method to execute" does not occur, and that failure is raised if and only if both
  slots are \<open>None\<close>. The handle of \<open>TopicUpdateTransaction._get_method\<close> dispatches to the
  channel's \<open>updateTopic\<close>.
\<close>

theorem dispatch_calls_populated_slot:
  "(transaction m = Some f \<and> query m = None \<longrightarrow> execute_method m req = call_stub f req)
   \<and> (transaction m = None \<and> query m = Some g \<longrightarrow> execute_method m req = call_stub g req)
   \<and> ((transaction m = None) \<noteq> (query m = None) \<longrightarrow>
        execute_method m req \<noteq> Inl NoMethodToExecute)
   \<and> (execute_method m req = Inl NoMethodToExecute
        \<longleftrightarrow> transaction m = None \<and> query m = None)
   \<and> execute_method (TopicUpdateTransaction_get_method chan) req' =
        call_stub (topic_updateTopic chan) req'"
  by (auto simp: execute_method_def call_stub_def TopicUpdateTransaction_get_method_def
      split: option.splits sum.splits)

theorem dispatch_calls_populated_slot_witness:
  "execute_method
     (TopicUpdateTransaction_get_method
        \<lparr>topic_updateTopic = (\<lambda>r. Inr OK),
         token_unfreezeTokenAccount = (\<lambda>r. Inl (RpcError ''StatusCode.UNAVAILABLE'' []))\<rparr>)
     (0::nat) = (Inr OK :: method_error + ResponseCode)
   \<and> execute_method \<lparr>query = Some (\<lambda>r. Inr BUSY), transaction = None\<rparr> (0::nat)
       = (Inr BUSY :: method_error + ResponseCode)"
proof -
  let ?f = "\<lambda>r::nat. Inr OK :: RpcError + ResponseCode"
  let ?g = "\<lambda>r::nat. Inr BUSY :: RpcError + ResponseCode"
  let ?m = "TopicUpdateTransaction_get_method
        \<lparr>topic_updateTopic = ?f,
         token_unfreezeTokenAccount = (\<lambda>r. Inl (RpcError ''StatusCode.UNAVAILABLE'' []))\<rparr>"
  let ?q = "\<lparr>query = Some ?g, transaction = None\<rparr>"
  have t: "transaction ?m = Some ?f \<and> query ?m = None"
    by (simp add: TopicUpdateTransaction_get_method_def)
  have q: "transaction ?q = None \<and> query ?q = Some ?g" by simp
  have "execute_method ?m 0 = call_stub ?f 0"
    using dispatch_calls_populated_slot [of ?m ?f 0, THEN conjunct1] t by simp
  moreover have "execute_method ?q 0 = call_stub ?g 0"
    using dispatch_calls_populated_slot [of ?q _ 0 ?g, THEN conjunct2, THEN conjunct1] q
    by simp
  ultimately show ?thesis by (simp add: call_stub_def)
qed

subsection \<open>The request builder\<close>

text \<open>
  Claim C7. When \<open>topic_id\<close> of a \<open>TopicUpdateTransaction\<close> is \<open>None\<close>, or \<open>token_id\<close> or
  \<open>account_id\<close> of a \<open>TokenUnfreezeTransaction\<close> is unset, \<open>build_transaction_body\<close> raises
  \<open>ValueError\<close>. When the request builder of an operation raises during an attempt of
  \<open>execute\<close>, at whatever position of the loop and with whatever budget left, the loop ends
  with that very error and adds nothing to the trace: the request is built outside the
  \<open>try\<close>, so nothing is dispatched, nothing is slept and no further attempt is made. So an
  execution of a \<open>TopicUpdateTransaction\<close> without \<open>topic_id\<close>, through its own
  \<open>_get_method\<close>, ends with the builder's error and an empty trace for every budget of at
  least one attempt.
\<close>

theorem missing_fields_surface_from_execute:
  "(topic_id tu = None \<longrightarrow>
      TopicUpdateTransaction_build_transaction_body body tu =
        Inl (ValueError ''Missing required fields: topic_id''))
   \<and> (token_id tf = None \<or> account_id tf = None \<longrightarrow>
      TokenUnfreezeTransaction_build_transaction_body body' tf =
        Inl (ValueError (if token_id tf = None then ''Missing required TokenID.''
                         else ''Missing required AccountID.'')))
   \<and> (int attempt < max_att \<and> make_request self (node_account_id (client st)) = Inl x \<longrightarrow>
      fst (execute_loop self time_sleep max_att attempt st) = Inl (RequestError x)
      \<and> trace (snd (execute_loop self time_sleep max_att attempt st)) = trace st
      \<and> client (snd (execute_loop self time_sleep max_att attempt st)) = client st)
   \<and> (topic_id tu = None \<and> 0 < max_attempts c \<longrightarrow>
      fst (execute
           (Transaction_executable base
              (\<lambda>node. TopicUpdateTransaction_build_transaction_body (base_body node) tu)
              TopicUpdateTransaction_get_method) time_sleep' c) =
          Inl (RequestError (ValueError ''Missing required fields: topic_id''))
      \<and> trace (snd (execute
           (Transaction_executable base
              (\<lambda>node. TopicUpdateTransaction_build_transaction_body (base_body node) tu)
              TopicUpdateTransaction_get_method) time_sleep' c)) = [])"
proof (intro conjI impI)
  assume "topic_id tu = None"
  then show "TopicUpdateTransaction_build_transaction_body body tu =
        Inl (ValueError ''Missing required fields: topic_id'')"
    by (simp add: TopicUpdateTransaction_build_transaction_body_def)
next
  assume "token_id tf = None \<or> account_id tf = None"
  then show "TokenUnfreezeTransaction_build_transaction_body body' tf =
        Inl (ValueError (if token_id tf = None then ''Missing required TokenID.''
                         else ''Missing required AccountID.''))"
    by (cases "token_id tf") (auto simp: TokenUnfreezeTransaction_build_transaction_body_def)
next
  assume a: "int attempt < max_att \<and> make_request self (node_account_id (client st)) = Inl x"
  then have step: "execute_loop self time_sleep max_att attempt st =
           (Inl (RequestError x),
            st\<lparr>current_backoff := next_backoff (max_backoff self) attempt (current_backoff st),
               self_node_account_id := Some (node_account_id (client st))\<rparr>)"
    by (intro request_error_step) simp_all
  show "fst (execute_loop self time_sleep max_att attempt st) = Inl (RequestError x)"
    using step by simp
  show "trace (snd (execute_loop self time_sleep max_att attempt st)) = trace st"
    using step by simp
  show "client (snd (execute_loop self time_sleep max_att attempt st)) = client st"
    using step by simp
next
  assume a: "topic_id tu = None \<and> 0 < max_attempts c"
  let ?ex = "Transaction_executable base
              (\<lambda>node. TopicUpdateTransaction_build_transaction_body (base_body node) tu)
              TopicUpdateTransaction_get_method"
  have req: "make_request ?ex (node_account_id (client (initial_state ?ex c))) =
               Inl (ValueError ''Missing required fields: topic_id'')"
    using a by (simp add: Transaction_executable_fields initial_state_def
        TopicUpdateTransaction_build_transaction_body_def)
  have budget: "int 0 < max_attempts c" using a by simp
  show "fst (execute ?ex time_sleep' c) =
          Inl (RequestError (ValueError ''Missing required fields: topic_id''))"
    using request_error_step [OF req budget, of time_sleep'] by (simp add: execute_def)
  show "trace (snd (execute ?ex time_sleep' c)) = []"
    using request_error_step [OF req budget, of time_sleep']
    by (simp add: execute_def initial_state_def)
qed

theorem missing_fields_surface_from_execute_witness:
  "fst (execute
     (Transaction_executable transaction_defaults
        (\<lambda>node. TopicUpdateTransaction_build_transaction_body node
           \<lparr>topic_id = (None :: nat option), memo = [], admin_key = (None :: nat option),
            submit_key = None, auto_renew_period = Some 7890000,
            auto_renew_account = (None :: nat option),
            expiration_time = (None :: nat option), transaction_fee = 10000000\<rparr>)
        TopicUpdateTransaction_get_method)
     patched_sleep
     \<lparr>max_attempts = 10, node_account_ids = [3, 4], node_account_id = 3,
      channel = (\<lambda>attempt node.
        \<lparr>topic_updateTopic = (\<lambda>r. Inr OK), token_unfreezeTokenAccount = (\<lambda>r. Inr OK)\<rparr>)\<rparr>)
     = Inl (RequestError (ValueError ''Missing required fields: topic_id''))
   \<and> TokenUnfreezeTransaction_build_transaction_body (0::nat)
        \<lparr>token_id = Some (7::nat), account_id = (None :: nat option)\<rparr>
     = Inl (ValueError ''Missing required AccountID.'')"
proof -
  let ?tu = "\<lparr>topic_id = (None :: nat option), memo = [], admin_key = (None :: nat option),
            submit_key = None, auto_renew_period = Some 7890000,
            auto_renew_account = (None :: nat option),
            expiration_time = (None :: nat option), transaction_fee = 10000000\<rparr>"
  let ?tf = "\<lparr>token_id = Some (7::nat), account_id = (None :: nat option)\<rparr>"
  let ?c = "\<lparr>max_attempts = 10, node_account_ids = [3, 4], node_account_id = (3::nat),
      channel = (\<lambda>(attempt::nat) (node::nat).
        \<lparr>topic_updateTopic = (\<lambda>r. Inr OK), token_unfreezeTokenAccount = (\<lambda>r. Inr OK)\<rparr>)\<rparr>"
  note w = missing_fields_surface_from_execute
    [where tu = ?tu and tf = ?tf and c = ?c and base_body = "\<lambda>node. node"
       and base = transaction_defaults and time_sleep' = patched_sleep and body' = "0::nat"]
  have h1: "topic_id ?tu = None \<and> 0 < max_attempts ?c" by simp
  have h2: "token_id ?tf = None \<or> account_id ?tf = None" by simp
  show ?thesis
    using w [THEN conjunct2, THEN conjunct2, THEN conjunct2, rule_format, OF h1]
      w [THEN conjunct2, THEN conjunct1, rule_format, OF h2]
    by simp
qed

subsection \<open>The backoff delays against the specified recurrence\<close>

text \<open>
  Claim C1. The claimed recurrence \<open>delay(0) = floor\<close>,
  \<open>delay(k) = min(delay(k-1) * 2, ceiling)\<close> caps every delay at the ceiling. Lines 166-167
  double the delay whenever it is below \<open>_max_backoff\<close> and never cap the product. With
  a floor of 3000 ms, a ceiling of 8000 ms and three busy answers the engine sleeps 3000,
  6000 and 12000 ms, where the recurrence gives 3000, 6000 and 8000: the third delay
  exceeds the configured maximum.
\<close>

theorem backoff_overshoots_ceiling:
  "sleeps (trace (snd (execute (scripted 3000 8000) patched_sleep
      (scripted_client 3 [3] 3 [Inr BUSY, Inr BUSY, Inr BUSY])))) = [3000, 6000, 12000]
   \<and> map (spec_delay 3000 8000) [0, 1, 2] = [3000, 6000, 8000]
   \<and> max_backoff (scripted 3000 8000) = 8000"
  by (simp add: execute_def execute_loop.simps initial_state_def scripted_def
      scripted_client_def attempt_body_def execute_method_def call_stub_def on_response_def
      delay_for_attempt_def patched_sleep_def next_backoff_def Let_def numeral_2_eq_2)

subsection \<open>The node chosen after a transport failure\<close>

text \<open>
  Claim C2. The \<open>except\<close> branch takes the next node from the attempt counter,
  \<open>(attempt + 1) % len(node_account_ids)\<close>, not from the position of the current node.
  With the candidates 3 and 4, node 3 current (position 0), a busy answer at attempt 0
  and a transport failure at attempt 1, the switch selects position \<open>(1 + 1) mod 2 = 0\<close>:
  node 3 again, and the next dispatch goes to it, where one step on from the current
  position is node 4. The failed attempt records no sleep and counts against the budget.
\<close>

theorem transport_failure_reselects_current_node:
  "trace (snd (execute (scripted 250 8000) patched_sleep
      (scripted_client 3 [3, 4] 3
         [Inr BUSY, Inl (RpcError ''StatusCode.UNAVAILABLE'' ''Test error''), Inr OK]))) =
     [Dispatch 3 3, Sleep 250, Dispatch 3 3, SwitchNode 3, Dispatch 3 3]
   \<and> node_account_id (client (snd (execute (scripted 250 8000) patched_sleep
      (scripted_client 3 [3, 4] 3
         [Inr BUSY, Inl (RpcError ''StatusCode.UNAVAILABLE'' ''Test error''), Inr OK])))) = 3
   \<and> [3, 4] ! ((0 + 1) mod length [3, 4 :: nat]) = (4 :: nat)"
  by (simp add: execute_def execute_loop.simps initial_state_def scripted_def
      scripted_client_def attempt_body_def execute_method_def call_stub_def on_response_def
      on_rpc_error_def switch_node_def delay_for_attempt_def patched_sleep_def
      next_backoff_def Let_def)

end
